theory Spec2Isabelle
  imports Complex_Main
begin

section \<open>Errors, results and tensors\<close>

text \<open>
  The layer \<open>DecodeDetections\<close> of \<open>keras_layers/keras_layer_DecodeDetections.py\<close>
  is embedded function by function. 32-bit floats are idealised as real numbers
  (no rounding, overflow, infinities or NaN); Python integers are \<open>int\<close>; every
  Python exception and every error of a TensorFlow operation is a value \<open>Inl e\<close>.
\<close>

datatype error = TypeError | ValueError | InvalidArgumentError

definition bind :: "error + 'a \<Rightarrow> ('a \<Rightarrow> error + 'b) \<Rightarrow> error + 'b" where
  "bind m f = (case m of Inl e \<Rightarrow> Inl e | Inr x \<Rightarrow> f x)"

text \<open>
  A rank-3 tensor: its static shape \<open>(batch_size, n_boxes, last_dim)\<close> and its entries
  as nested lists. A tensor is well shaped when the entries fill the shape.
\<close>

record tensor3 =
  dims :: "nat \<times> nat \<times> nat"
  elems :: "real list list list"

definition well_shaped :: "tensor3 \<Rightarrow> bool" where
  "well_shaped y =
     (case dims y of (b, n, d) \<Rightarrow>
        length (elems y) = b \<and>
        (\<forall>img \<in> set (elems y). length img = n \<and> (\<forall>r \<in> set img. length r = d)))"

section \<open>The TensorFlow operations the layer calls\<close>

text \<open>
  The operations of this section are TensorFlow library operations: the layer calls
  them, and their code is not part of the repository. Each is modelled by the
  behaviour TensorFlow documents for it, which is also what the specification relies
  on where it describes the step.

  Modelled from the spec: \<open>tf.constant(value, dtype=float32)\<close>, missing from the
  sources. It builds a constant from a number. The specification does not say what it
  does with Python's \<open>None\<close>; TensorFlow rejects it with a \<open>ValueError\<close>
  (\<open>None values not supported\<close>).
\<close>

definition constant_float :: "real option \<Rightarrow> error + real" where
  "constant_float v = (case v of None \<Rightarrow> Inl ValueError | Some x \<Rightarrow> Inr x)"

text \<open>
  Modelled from the spec: \<open>tf.range(start, limit)\<close>, missing from the sources. With
  the step 1 it yields \<open>start, ..., limit - 1\<close> (the classes \<open>1 .. n_classes - 1\<close> of
  the specification) and, in TensorFlow, requires \<open>start \<le> limit\<close>.
\<close>

definition tf_range :: "nat \<Rightarrow> nat \<Rightarrow> error + nat list" where
  "tf_range start limit =
     (if limit < start then Inl InvalidArgumentError else Inr [start..<limit])"

text \<open>
  Modelled from the spec: \<open>tf.map_fn\<close>, missing from the sources. It applies the
  function to the elements in order and stacks the results; an error of any
  application is the error of the whole.
\<close>

fun map_fn :: "('a \<Rightarrow> error + 'b) \<Rightarrow> 'a list \<Rightarrow> error + 'b list" where
  "map_fn fn [] = Inr []"
| "map_fn fn (x # xs) =
     (case fn x of
        Inl e \<Rightarrow> Inl e
      | Inr v \<Rightarrow> (case map_fn fn xs of Inl e \<Rightarrow> Inl e | Inr vs \<Rightarrow> Inr (v # vs)))"

text \<open>
  Modelled from the spec: \<open>tf.boolean_mask\<close>, missing from the sources. It keeps, in
  order, the rows whose mask entry is true.
\<close>

definition boolean_mask :: "'a list \<Rightarrow> bool list \<Rightarrow> 'a list" where
  "boolean_mask tensor keep = map fst (filter snd (zip tensor keep))"

text \<open>
  Modelled from the spec: \<open>tf.gather(params, indices, axis=0)\<close>, missing from the
  sources. It returns the rows at the given indices, in the order of the indices,
  and rejects an index outside the tensor.
\<close>

definition gather :: "'a list \<Rightarrow> nat list \<Rightarrow> error + 'a list" where
  "gather params indices =
     (if list_all (\<lambda>i. i < length params) indices
      then Inr (map (\<lambda>i. params ! i) indices)
      else Inl InvalidArgumentError)"

text \<open>
  Modelled from the spec: \<open>tf.pad(tensor, [[0, extra], [0, 0]], constant_values=0.0)\<close>,
  missing from the sources. On a tensor of shape \<open>(m, 6)\<close> it appends \<open>extra\<close> rows
  of six zeros (the zero-padding sentinels) and rejects a negative \<open>extra\<close>.
\<close>

definition sentinel :: "real list" where
  "sentinel = [0, 0, 0, 0, 0, 0]"

definition pad :: "real list list \<Rightarrow> int \<Rightarrow> error + real list list" where
  "pad tensor extra =
     (if extra < 0 then Inl InvalidArgumentError
      else Inr (tensor @ replicate (nat extra) sentinel))"

text \<open>
  Modelled from the spec: \<open>tf.nn.top_k(values, k, sorted=True).indices\<close>, missing
  from the sources. It returns the indices of the \<open>k\<close> largest values in descending
  order of value, the lower index first among equal values, and rejects a negative
  \<open>k\<close> and a \<open>k\<close> larger than the number of values.
\<close>

definition descending :: "real list \<Rightarrow> nat list" where
  "descending vals = sort_key (\<lambda>i. - (vals ! i)) [0..<length vals]"

definition top_k_indices :: "real list \<Rightarrow> int \<Rightarrow> error + nat list" where
  "top_k_indices vals k =
     (if k < 0 \<or> int (length vals) < k then Inl InvalidArgumentError
      else Inr (take (nat k) (descending vals)))"

text \<open>
  Modelled from the spec: \<open>tf.image.non_max_suppression\<close>, missing from the sources:
  the greedy non-maximum suppression of the specification. The boxes are rows \<open>[y1, x1, y2, x2]\<close> giving any diagonal pair of
  corners. The candidates are visited in descending order of score (the lower index
  first among equal scores); the first is emitted and every remaining candidate
  whose intersection over union with it exceeds the threshold is discarded; this
  repeats until no candidate remains or \<open>max_output_size\<close> indices are emitted.
  TensorFlow rejects a threshold outside \<open>[0, 1]\<close>. The intersection over union of
  two boxes is the area of the intersection divided by the area of the union, and 0
  when one of the boxes has no area; TensorFlow orders the two corners of a box
  before it takes the areas.
\<close>

definition IOU :: "real list \<Rightarrow> real list \<Rightarrow> real" where
  "IOU a b =
     (let ymin_i = min (a ! 0) (a ! 2); xmin_i = min (a ! 1) (a ! 3);
          ymax_i = max (a ! 0) (a ! 2); xmax_i = max (a ! 1) (a ! 3);
          ymin_j = min (b ! 0) (b ! 2); xmin_j = min (b ! 1) (b ! 3);
          ymax_j = max (b ! 0) (b ! 2); xmax_j = max (b ! 1) (b ! 3);
          area_i = (ymax_i - ymin_i) * (xmax_i - xmin_i);
          area_j = (ymax_j - ymin_j) * (xmax_j - xmin_j)
      in if area_i \<le> 0 \<or> area_j \<le> 0 then 0
         else
           (let intersection_area =
                  max (min ymax_i ymax_j - max ymin_i ymin_j) 0 *
                  max (min xmax_i xmax_j - max xmin_i xmin_j) 0
            in intersection_area / (area_i + area_j - intersection_area)))"

fun nms_select :: "real list list \<Rightarrow> real \<Rightarrow> nat \<Rightarrow> nat list \<Rightarrow> nat list" where
  "nms_select boxes thr 0 cands = []"
| "nms_select boxes thr (Suc k) [] = []"
| "nms_select boxes thr (Suc k) (i # cands) =
     i # nms_select boxes thr k
           (filter (\<lambda>j. \<not> thr < IOU (boxes ! i) (boxes ! j)) cands)"

definition non_max_suppression ::
  "real list list \<Rightarrow> real list \<Rightarrow> int \<Rightarrow> real \<Rightarrow> error + nat list" where
  "non_max_suppression boxes scores max_output_size iou_thr =
     (if iou_thr < 0 \<or> 1 < iou_thr then Inl InvalidArgumentError
      else Inr (nms_select boxes iou_thr (nat max_output_size)
                  (sort_key (\<lambda>i. - (scores ! i)) [0..<length boxes])))"

section \<open>The layer: construction\<close>

text \<open>
  The object built by \<open>__init__\<close>: the members kept for the config, the TensorFlow
  constants made from them, and the \<open>input_spec\<close> that \<open>build\<close> sets.
\<close>

record decode_detections =
  confidence_thresh :: real
  iou_threshold :: real
  top_k :: int
  normalize_coords :: bool
  img_height :: "real option"
  img_width :: "real option"
  coords :: string
  nms_max_output_size :: int
  channels_last_confidence_thresh :: real
  channels_last_iou_threshold :: real
  channels_last_top_k :: int
  channels_last_normalize_coords :: bool
  channels_last_img_height :: real
  channels_last_img_width :: real
  channels_last_nms_max_output_size :: int
  input_spec :: "(nat \<times> nat \<times> nat) list"

text \<open>
  \<open>__init__\<close>, lines 75 to 103. The first argument is the value of \<open>K.backend()\<close>.
  The constants of lines 95 to 101 are built in the order of the source; the two
  image dimensions go through \<open>tf.constant(..., dtype=float32)\<close>.
\<close>

definition init ::
  "string \<Rightarrow> real \<Rightarrow> real \<Rightarrow> int \<Rightarrow> int \<Rightarrow> string \<Rightarrow> bool \<Rightarrow> real option \<Rightarrow> real option
     \<Rightarrow> error + decode_detections" where
  "init backend confidence_thresh' iou_threshold' top_k' nms_max_output_size' coords'
        normalize_coords' img_height' img_width' =
     (if backend \<noteq> ''tensorflow'' then Inl TypeError
      else if normalize_coords' \<and> (img_height' = None \<or> img_width' = None) then Inl ValueError
      else if coords' \<noteq> ''centroids'' then Inl ValueError
      else
        bind (constant_float img_height') (\<lambda>h.
        bind (constant_float img_width') (\<lambda>w.
          Inr \<lparr> confidence_thresh = confidence_thresh',
                iou_threshold = iou_threshold',
                top_k = top_k',
                normalize_coords = normalize_coords',
                img_height = img_height',
                img_width = img_width',
                coords = coords',
                nms_max_output_size = nms_max_output_size',
                channels_last_confidence_thresh = confidence_thresh',
                channels_last_iou_threshold = iou_threshold',
                channels_last_top_k = top_k',
                channels_last_normalize_coords = normalize_coords',
                channels_last_img_height = h,
                channels_last_img_width = w,
                channels_last_nms_max_output_size = nms_max_output_size',
                input_spec = [] \<rparr>)))"


section \<open>The layer: decoding the boxes\<close>

text \<open>\<open>y_pred[..., -k]\<close> on one row of the last axis.\<close>

definition at_neg :: "real list \<Rightarrow> nat \<Rightarrow> real" where
  "at_neg r k = r ! (length r - k)"

text \<open>Lines 124 to 127: anchor box offsets to centre, width and height.\<close>

definition box_cx :: "real list \<Rightarrow> real" where
  "box_cx r = at_neg r 12 * at_neg r 4 * at_neg r 6 + at_neg r 8"

definition box_cy :: "real list \<Rightarrow> real" where
  "box_cy r = at_neg r 11 * at_neg r 3 * at_neg r 5 + at_neg r 7"

definition box_w :: "real list \<Rightarrow> real" where
  "box_w r = exp (at_neg r 10 * at_neg r 2) * at_neg r 6"

definition box_h :: "real list \<Rightarrow> real" where
  "box_h r = exp (at_neg r 9 * at_neg r 1) * at_neg r 5"

text \<open>Lines 130 to 133: centroids to corners.\<close>

definition box_xmin :: "real list \<Rightarrow> real" where
  "box_xmin r = box_cx r - 0.5 * box_w r"

definition box_ymin :: "real list \<Rightarrow> real" where
  "box_ymin r = box_cy r - 0.5 * box_h r"

definition box_xmax :: "real list \<Rightarrow> real" where
  "box_xmax r = box_cx r + 0.5 * box_w r"

definition box_ymax :: "real list \<Rightarrow> real" where
  "box_ymax r = box_cy r + 0.5 * box_h r"

text \<open>Lines 137 to 146: the two branches of the conditional on \<open>normalize_coords\<close>.\<close>

definition normalized_coords :: "decode_detections \<Rightarrow> real list \<Rightarrow> real list" where
  "normalized_coords self r =
     [box_xmin r * channels_last_img_width self,
      box_ymin r * channels_last_img_height self,
      box_xmax r * channels_last_img_width self,
      box_ymax r * channels_last_img_height self]"

definition non_normalized_coords :: "real list \<Rightarrow> real list" where
  "non_normalized_coords r = [box_xmin r, box_ymin r, box_xmax r, box_ymax r]"

text \<open>Line 149: the class confidences \<open>y_pred[..., :-12]\<close> followed by the four corners.\<close>

definition decode_row :: "decode_detections \<Rightarrow> real list \<Rightarrow> real list" where
  "decode_row self r =
     take (length r - 12) r @
     (if channels_last_normalize_coords self then normalized_coords self r
      else non_normalized_coords r)"

section \<open>The layer: filtering one class\<close>

text \<open>Lines 173 to 177: class id, confidence of the class and the four corners.\<close>

definition single_class_of :: "real list list \<Rightarrow> nat \<Rightarrow> real list list" where
  "single_class_of batch_item index =
     map (\<lambda>r. [real index, r ! index] @ drop (length r - 4) r) batch_item"

text \<open>Lines 180 to 182: confidence thresholding.\<close>

definition threshold :: "decode_detections \<Rightarrow> real list list \<Rightarrow> real list list" where
  "threshold self single_class =
     boolean_mask single_class
       (map (\<lambda>r. channels_last_confidence_thresh self < r ! 1) single_class)"

text \<open>
  Lines 185 to 203. Lines 189 to 193 put the corners of a row in the order
  \<open>(ymin, xmin, ymax, xmax)\<close>.
\<close>

definition corner_box :: "real list \<Rightarrow> real list" where
  "corner_box r = [at_neg r 3, at_neg r 4, at_neg r 1, at_neg r 2]"

definition perform_nms :: "decode_detections \<Rightarrow> real list list \<Rightarrow> error + real list list" where
  "perform_nms self single_class =
     (let scores = map (\<lambda>r. r ! 1) single_class;
          boxes = map corner_box single_class
      in bind (non_max_suppression boxes scores (channels_last_nms_max_output_size self)
                 (iou_threshold self))
           (\<lambda>maxima_indices. gather single_class maxima_indices))"

text \<open>Lines 205 to 206.\<close>

definition no_confident_predictions :: "real list list" where
  "no_confident_predictions = [sentinel]"

text \<open>
  \<open>filter_single_class\<close>, lines 168 to 216. \<open>tf.size\<close> counts the entries of the
  thresholded tensor.
\<close>

definition filter_single_class ::
  "decode_detections \<Rightarrow> real list list \<Rightarrow> nat \<Rightarrow> error + real list list" where
  "filter_single_class self batch_item index =
     (let single_class = threshold self (single_class_of batch_item index)
      in bind (if length (concat single_class) = 0 then Inr no_confident_predictions
               else perform_nms self single_class)
           (\<lambda>single_class_nms.
              pad single_class_nms
                (channels_last_nms_max_output_size self - int (length single_class_nms))))"

section \<open>The layer: top-k and the batch\<close>

text \<open>Lines 238 to 241.\<close>

definition top_k_branch :: "decode_detections \<Rightarrow> real list list \<Rightarrow> error + real list list" where
  "top_k_branch self filtered_predictions =
     bind (top_k_indices (map (\<lambda>r. r ! 1) filtered_predictions) (channels_last_top_k self))
       (\<lambda>indices. gather filtered_predictions indices)"

text \<open>Lines 242 to 249.\<close>

definition pad_and_top_k :: "decode_detections \<Rightarrow> real list list \<Rightarrow> error + real list list" where
  "pad_and_top_k self filtered_predictions =
     bind (pad filtered_predictions
             (channels_last_top_k self - int (length filtered_predictions)))
       (\<lambda>padded_predictions.
          bind (top_k_indices (map (\<lambda>r. r ! 1) padded_predictions) (channels_last_top_k self))
            (\<lambda>indices. gather padded_predictions indices))"

text \<open>
  \<open>filter_predictions\<close>, lines 165 to 253: the per-class filter over
  \<open>range(1, n_classes)\<close>, the reshape to rows of six, and the conditional on the number
  of rows.
\<close>

definition filtered_predictions_of ::
  "decode_detections \<Rightarrow> nat \<Rightarrow> real list list \<Rightarrow> error + real list list" where
  "filtered_predictions_of self n_classes batch_item =
     bind (tf_range 1 n_classes) (\<lambda>classes.
     bind (map_fn (filter_single_class self batch_item) classes) (\<lambda>filtered_single_classes.
       Inr (concat filtered_single_classes)))"

definition filter_predictions ::
  "decode_detections \<Rightarrow> nat \<Rightarrow> real list list \<Rightarrow> error + real list list" where
  "filter_predictions self n_classes batch_item =
     bind (filtered_predictions_of self n_classes batch_item) (\<lambda>filtered_predictions.
       if channels_last_top_k self \<le> int (length filtered_predictions)
       then top_k_branch self filtered_predictions
       else pad_and_top_k self filtered_predictions)"

text \<open>
  \<open>call\<close>, lines 109 to 265. The index \<open>-12\<close> on the last axis is out of bounds when
  the last dimension is below 12. \<open>n_classes\<close> is the last dimension of the decoded
  tensor minus 4.
\<close>

definition call :: "decode_detections \<Rightarrow> tensor3 \<Rightarrow> error + real list list list" where
  "call self y =
     (case dims y of (batch_size, n_boxes, last_dim) \<Rightarrow>
        if last_dim < 12 then Inl ValueError
        else
          (let y_pred = map (map (decode_row self)) (elems y);
               n_classes = (last_dim - 12 + 4) - 4
           in bind (tf_range 1 n_classes) (\<lambda>class_indices.
                map_fn (filter_predictions self n_classes) y_pred)))"

section \<open>Definitions used to state the properties\<close>

text \<open>
  The decoded box as the specification words it: centre, width and height from the
  offsets, the anchor and the variances, then the corners, then the scaling by the
  image size when the coordinates are normalised.
\<close>

definition spec_decoded_box ::
  "bool \<Rightarrow> real \<Rightarrow> real \<Rightarrow> real \<Rightarrow> real \<Rightarrow> real \<Rightarrow> real \<Rightarrow> real \<Rightarrow> real \<Rightarrow> real \<Rightarrow> real \<Rightarrow> real \<Rightarrow> real
     \<Rightarrow> real \<Rightarrow> real \<Rightarrow> real list" where
  "spec_decoded_box normalized img_w img_h dcx dcy dw dh cx_a cy_a w_a h_a vcx vcy vw vh =
     (let cx = dcx * vcx * w_a + cx_a;
          cy = dcy * vcy * h_a + cy_a;
          w = exp (dw * vw) * w_a;
          h = exp (dh * vh) * h_a;
          xmin = cx - w / 2; ymin = cy - h / 2;
          xmax = cx + w / 2; ymax = cy + h / 2
      in if normalized then [xmin * img_w, ymin * img_h, xmax * img_w, ymax * img_h]
         else [xmin, ymin, xmax, ymax])"

text \<open>The indices that non-maximum suppression emits for a thresholded class.\<close>

definition nms_indices :: "decode_detections \<Rightarrow> real list list \<Rightarrow> nat list" where
  "nms_indices self sc =
     nms_select (map corner_box sc) (iou_threshold self)
       (nat (channels_last_nms_max_output_size self))
       (sort_key (\<lambda>i. - (map (\<lambda>r. r ! 1) sc ! i)) [0..<length (map corner_box sc)])"

text \<open>The detections of one class of one image: the rows that survive thresholding and
  non-maximum suppression, before the padding.\<close>

definition detections :: "decode_detections \<Rightarrow> real list list \<Rightarrow> nat \<Rightarrow> real list list" where
  "detections self batch_item index =
     (let single_class = threshold self (single_class_of batch_item index)
      in map (\<lambda>i. single_class ! i) (nms_indices self single_class))"

text \<open>The top-k stage as one function: pad with sentinels up to \<open>k\<close> rows, sort by
  descending confidence (stably), keep the first \<open>k\<close> rows.\<close>

definition select_top_k :: "int \<Rightarrow> real list list \<Rightarrow> real list list" where
  "select_top_k k rows =
     take (nat k) (sort_key (\<lambda>r. - (r ! 1)) (rows @ replicate (nat k - length rows) sentinel))"

text \<open>Two rows are compatible when, being both real detections of the same class,
  their intersection over union does not exceed the threshold.\<close>

definition compatible :: "real \<Rightarrow> real list \<Rightarrow> real list \<Rightarrow> bool" where
  "compatible thr r s \<longleftrightarrow>
     (r \<noteq> sentinel \<and> s \<noteq> sentinel \<and> r ! 0 = s ! 0 \<longrightarrow> IOU (corner_box r) (corner_box s) \<le> thr)"


text \<open>The block of one class: its detections, padded with sentinels to
  \<open>nms_max_output_size\<close> rows.\<close>

definition class_block :: "decode_detections \<Rightarrow> real list list \<Rightarrow> nat \<Rightarrow> real list list" where
  "class_block self batch_item index =
     detections self batch_item index @
     replicate (nat (channels_last_nms_max_output_size self)
                  - length (detections self batch_item index)) sentinel"

text \<open>A layer, a record and four inputs for concrete evaluation.\<close>

definition example_layer :: decode_detections where
  "example_layer =
     \<lparr> confidence_thresh = 1 / 100, iou_threshold = 45 / 100, top_k = 3,
       normalize_coords = False, img_height = Some 100, img_width = Some 200,
       coords = ''centroids'', nms_max_output_size = 2,
       channels_last_confidence_thresh = 1 / 100, channels_last_iou_threshold = 45 / 100,
       channels_last_top_k = 3, channels_last_normalize_coords = False,
       channels_last_img_height = 100, channels_last_img_width = 200,
       channels_last_nms_max_output_size = 2, input_spec = [] \<rparr>"

definition example_row :: "real list" where
  "example_row = [1 / 10, 9 / 10, 0, 0, 0, 0, 10, 10, 4, 4, 1 / 10, 1 / 10, 2 / 10, 2 / 10]"


definition example_input2 :: tensor3 where
  "example_input2 = \<lparr> dims = (1, 3, 14), elems =
     [[[1 / 10, 9 / 10, 0, 0, 0, 0, 10, 10, 4, 4, 1 / 10, 1 / 10, 2 / 10, 2 / 10],
       [1 / 10, 7 / 10, 0, 0, 0, 0, 10, 10, 4, 4, 1 / 10, 1 / 10, 2 / 10, 2 / 10],
       [1 / 10, 8 / 10, 0, 0, 0, 0, 30, 30, 4, 4, 1 / 10, 1 / 10, 2 / 10, 2 / 10]]] \<rparr>"


definition example_input4 :: tensor3 where
  "example_input4 = \<lparr> dims = (1, 1, 14), elems =
     [[[99 / 100, 1 / 200, 0, 0, 0, 0, 10, 10, 4, 4, 1 / 10, 1 / 10, 2 / 10, 2 / 10]]] \<rparr>"

section \<open>Basic facts\<close>

lemma bind_Inr_iff: "bind m f = Inr y \<longleftrightarrow> (\<exists>x. m = Inr x \<and> f x = Inr y)"
  by (cases m) (simp_all add: bind_def)

lemma bind_Inr [simp]: "bind (Inr x) f = f x"
  by (simp add: bind_def)

lemma bind_Inl [simp]: "bind (Inl e) f = Inl e"
  by (simp add: bind_def)

lemma map_fn_Inr_iff: "map_fn f xs = Inr ys \<longleftrightarrow> list_all2 (\<lambda>x y. f x = Inr y) xs ys"
proof (induction xs arbitrary: ys)
  case Nil
  show ?case by auto
next
  case (Cons x xs)
  show ?case
    by (auto split: sum.splits simp: list_all2_Cons1 Cons.IH [symmetric])
qed

lemma boolean_mask_map: "boolean_mask xs (map P xs) = filter P xs"
  by (induction xs) (simp_all add: boolean_mask_def)

section \<open>Decoding the boxes\<close>

lemma at_neg_append12:
  "at_neg (scores @ [a12, a11, a10, a9, a8, a7, a6, a5, a4, a3, a2, a1]) 12 = a12"
  "at_neg (scores @ [a12, a11, a10, a9, a8, a7, a6, a5, a4, a3, a2, a1]) 11 = a11"
  "at_neg (scores @ [a12, a11, a10, a9, a8, a7, a6, a5, a4, a3, a2, a1]) 10 = a10"
  "at_neg (scores @ [a12, a11, a10, a9, a8, a7, a6, a5, a4, a3, a2, a1]) 9 = a9"
  "at_neg (scores @ [a12, a11, a10, a9, a8, a7, a6, a5, a4, a3, a2, a1]) 8 = a8"
  "at_neg (scores @ [a12, a11, a10, a9, a8, a7, a6, a5, a4, a3, a2, a1]) 7 = a7"
  "at_neg (scores @ [a12, a11, a10, a9, a8, a7, a6, a5, a4, a3, a2, a1]) 6 = a6"
  "at_neg (scores @ [a12, a11, a10, a9, a8, a7, a6, a5, a4, a3, a2, a1]) 5 = a5"
  "at_neg (scores @ [a12, a11, a10, a9, a8, a7, a6, a5, a4, a3, a2, a1]) 4 = a4"
  "at_neg (scores @ [a12, a11, a10, a9, a8, a7, a6, a5, a4, a3, a2, a1]) 3 = a3"
  "at_neg (scores @ [a12, a11, a10, a9, a8, a7, a6, a5, a4, a3, a2, a1]) 2 = a2"
  "at_neg (scores @ [a12, a11, a10, a9, a8, a7, a6, a5, a4, a3, a2, a1]) 1 = a1"
  "at_neg (scores @ [a12, a11, a10, a9, a8, a7, a6, a5, a4, a3, a2, a1]) (Suc 0) = a1"
  by (simp_all add: at_neg_def nth_append)

lemmas box_defs =
  box_xmin_def box_ymin_def box_xmax_def box_ymax_def box_cx_def box_cy_def box_w_def box_h_def

lemma decode_row_append:
  "decode_row self (scores @ [dcx, dcy, dw, dh, cx_a, cy_a, w_a, h_a, vcx, vcy, vw, vh]) =
     scores @ spec_decoded_box (channels_last_normalize_coords self)
                (channels_last_img_width self) (channels_last_img_height self)
                dcx dcy dw dh cx_a cy_a w_a h_a vcx vcy vw vh"
  by (simp add: decode_row_def normalized_coords_def non_normalized_coords_def box_defs
      at_neg_append12 spec_decoded_box_def Let_def)


section \<open>Thresholding and non-maximum suppression of one class\<close>

lemma threshold_filter:
  "threshold self sc = filter (\<lambda>r. channels_last_confidence_thresh self < r ! 1) sc"
  by (simp add: threshold_def boolean_mask_map)

lemma nms_select_subset: "set (nms_select boxes thr k cands) \<subseteq> set cands"
  by (induction boxes thr k cands rule: nms_select.induct) auto

lemma nms_select_length: "length (nms_select boxes thr k cands) \<le> k"
  by (induction boxes thr k cands rule: nms_select.induct) auto


lemma nms_select_pairwise:
  "sorted_wrt (\<lambda>i j. \<not> thr < IOU (boxes ! i) (boxes ! j)) (nms_select boxes thr k cands)"
proof (induction boxes thr k cands rule: nms_select.induct)
  case (3 boxes thr k i cands)
  then show ?case using nms_select_subset [of boxes thr k "filter (\<lambda>j. \<not> thr < IOU (boxes ! i) (boxes ! j)) cands"]
    by auto
qed simp_all

lemma nms_indices_range: "set (nms_indices self sc) \<subseteq> {..<length sc}"
  using nms_select_subset [of "map corner_box sc" "iou_threshold self"
      "nat (channels_last_nms_max_output_size self)"
      "sort_key (\<lambda>i. - (map (\<lambda>r. r ! 1) sc ! i)) [0..<length (map corner_box sc)]"]
  by (auto simp: nms_indices_def)


lemma nms_indices_length: "length (nms_indices self sc) \<le> nat (channels_last_nms_max_output_size self)"
  by (simp add: nms_indices_def nms_select_length)

lemma nms_indices_pairwise:
  "sorted_wrt (\<lambda>i j. \<not> iou_threshold self < IOU (corner_box (sc ! i)) (corner_box (sc ! j)))
     (nms_indices self sc)"
proof -
  have "sorted_wrt (\<lambda>i j. \<not> iou_threshold self < IOU (map corner_box sc ! i) (map corner_box sc ! j))
     (nms_indices self sc)"
    unfolding nms_indices_def by (rule nms_select_pairwise)
  then show ?thesis
    using nms_indices_range [of self sc]
    by (auto simp: sorted_wrt_iff_nth_less subset_iff dest!: nth_mem)
qed

lemma perform_nms_eq:
  "perform_nms self sc =
     (if iou_threshold self < 0 \<or> 1 < iou_threshold self then Inl InvalidArgumentError
      else Inr (map (\<lambda>i. sc ! i) (nms_indices self sc)))"
  using nms_indices_range [of self sc]
  by (auto simp: perform_nms_def non_max_suppression_def gather_def nms_indices_def Let_def
      list_all_iff subset_iff)

lemma nms_select_Nil [simp]: "nms_select boxes thr k [] = []"
  by (cases k) simp_all

lemma nms_indices_Nil [simp]: "nms_indices self [] = []"
  by (simp add: nms_indices_def)

lemma single_class_of_nonempty: "r \<in> set (single_class_of batch_item index) \<Longrightarrow> r \<noteq> []"
  by (auto simp: single_class_of_def)

lemma concat_threshold_empty:
  "length (concat (threshold self (single_class_of batch_item index))) = 0
     \<longleftrightarrow> threshold self (single_class_of batch_item index) = []"
proof -
  have "\<forall>r \<in> set (threshold self (single_class_of batch_item index)). r \<noteq> []"
    by (auto simp: threshold_filter dest: single_class_of_nonempty)
  then show ?thesis
    by (cases "threshold self (single_class_of batch_item index)") auto
qed

lemma filter_single_class_eq:
  "filter_single_class self batch_item index =
     (if threshold self (single_class_of batch_item index) = []
      then pad [sentinel] (channels_last_nms_max_output_size self - 1)
      else if iou_threshold self < 0 \<or> 1 < iou_threshold self then Inl InvalidArgumentError
      else pad (detections self batch_item index)
             (channels_last_nms_max_output_size self
                - int (length (detections self batch_item index))))"
  unfolding filter_single_class_def Let_def concat_threshold_empty
  by (simp add: perform_nms_eq detections_def no_confident_predictions_def Let_def)

lemma detections_empty:
  "threshold self (single_class_of batch_item index) = [] \<Longrightarrow> detections self batch_item index = []"
  by (simp add: detections_def)

lemma length_detections:
  "length (detections self batch_item index) \<le> nat (channels_last_nms_max_output_size self)"
  by (simp add: detections_def Let_def nms_indices_length)

lemma detections_subset:
  "set (detections self batch_item index) \<subseteq> set (threshold self (single_class_of batch_item index))"
  using nms_indices_range [of self "threshold self (single_class_of batch_item index)"]
  by (auto simp: detections_def Let_def)

lemma detection_row:
  assumes "d \<in> set (detections self batch_item index)"
  shows "\<exists>r \<in> set batch_item. d = [real index, r ! index] @ drop (length r - 4) r
           \<and> channels_last_confidence_thresh self < r ! index"
proof -
  have "d \<in> set (threshold self (single_class_of batch_item index))"
    using assms detections_subset [of self batch_item index] by blast
  then show ?thesis
    by (auto simp: threshold_filter single_class_of_def)
qed

lemma filter_single_class_valid:
  assumes "1 \<le> channels_last_nms_max_output_size self"
    and "0 \<le> iou_threshold self" and "iou_threshold self \<le> 1"
  shows "filter_single_class self batch_item index =
     Inr (detections self batch_item index @
          replicate (nat (channels_last_nms_max_output_size self)
                       - length (detections self batch_item index)) sentinel)"
proof (cases "threshold self (single_class_of batch_item index) = []")
  case True
  have "[sentinel] @ replicate (nat (channels_last_nms_max_output_size self - 1)) sentinel
          = replicate (nat (channels_last_nms_max_output_size self)) sentinel"
    using assms(1)
    by (metis Suc_nat_eq_nat_zadd1 add.commute append_Cons append_Nil diff_add_cancel
        diff_ge_0_iff_ge replicate_Suc)
  then show ?thesis using True assms
    by (simp add: filter_single_class_eq detections_empty pad_def)
next
  case False
  have "nat (channels_last_nms_max_output_size self - int (length (detections self batch_item index)))
      = nat (channels_last_nms_max_output_size self) - length (detections self batch_item index)"
    by simp
  then show ?thesis using False assms length_detections [of self batch_item index]
    by (simp add: filter_single_class_eq pad_def)
qed

lemma filter_single_class_Inr:
  assumes "filter_single_class self batch_item index = Inr block"
  shows "\<exists>k. block = detections self batch_item index @ replicate k sentinel"
proof (cases "threshold self (single_class_of batch_item index) = []")
  case True
  then have "block = replicate (Suc (nat (channels_last_nms_max_output_size self - 1))) sentinel"
    using assms by (auto simp: filter_single_class_eq pad_def split: if_splits)
  then show ?thesis using True by (auto simp: detections_empty simp del: replicate_Suc)
next
  case False
  then show ?thesis using assms
    by (auto simp: filter_single_class_eq pad_def split: if_splits)
qed

section \<open>The top-k stage\<close>

lemma insort_key_map:
  "map g (insort_key (\<lambda>i. f (g i)) x xs) = insort_key f (g x) (map g xs)"
  by (induction xs) simp_all

lemma sort_key_map: "map g (sort_key (\<lambda>i. f (g i)) xs) = sort_key f (map g xs)"
  by (induction xs) (simp_all add: insort_key_map)

lemma insort_key_cong_set:
  "f x = g x \<Longrightarrow> (\<And>y. y \<in> set xs \<Longrightarrow> f y = g y) \<Longrightarrow> insort_key f x xs = insort_key g x xs"
  by (induction xs) simp_all

lemma sort_key_cong_set:
  "(\<And>y. y \<in> set xs \<Longrightarrow> f y = g y) \<Longrightarrow> sort_key f xs = sort_key g xs"
proof (induction xs)
  case Nil
  show ?case by simp
next
  case (Cons x xs)
  have "sort_key f xs = sort_key g xs" using Cons by simp
  moreover have "insort_key f x (sort_key g xs) = insort_key g x (sort_key g xs)"
    by (rule insort_key_cong_set) (simp_all add: Cons.prems)
  ultimately show ?case by simp
qed

lemma set_descending: "set (descending vals) = {..<length vals}"
  by (auto simp: descending_def)

lemma distinct_descending: "distinct (descending vals)"
  by (simp add: descending_def)

lemma length_descending: "length (descending vals) = length vals"
  by (simp add: descending_def)

lemma gather_descending:
  "map (\<lambda>i. rows ! i) (descending (map (\<lambda>r. r ! 1) rows)) = sort_key (\<lambda>r. - (r ! 1)) rows"
proof -
  have "descending (map (\<lambda>r. r ! 1) rows) = sort_key (\<lambda>i. - ((rows ! i) ! 1)) [0..<length rows]"
    unfolding descending_def length_map by (rule sort_key_cong_set) simp
  then have "map (\<lambda>i. rows ! i) (descending (map (\<lambda>r. r ! 1) rows))
      = sort_key (\<lambda>r. - (r ! 1)) (map (\<lambda>i. rows ! i) [0..<length rows])"
    using sort_key_map [of "\<lambda>i. rows ! i" "\<lambda>r. - (r ! 1)" "[0..<length rows]"]
    by (simp del: One_nat_def)
  then show ?thesis by (simp add: map_nth)
qed

lemma gather_top_k:
  "bind (top_k_indices (map (\<lambda>r. r ! 1) rows) k) (\<lambda>indices. gather rows indices) =
     (if k < 0 \<or> int (length rows) < k then Inl InvalidArgumentError
      else Inr (take (nat k) (sort_key (\<lambda>r. - (r ! 1)) rows)))"
proof -
  have "list_all (\<lambda>i. i < length rows) (take (nat k) (descending (map (\<lambda>r. r ! 1) rows)))"
    using set_descending [of "map (\<lambda>r. r ! 1) rows"]
    by (auto simp: list_all_iff dest!: in_set_takeD)
  then show ?thesis
    by (simp add: top_k_indices_def gather_def take_map [symmetric] gather_descending
        del: One_nat_def)
qed

lemma top_k_stage:
  "(if channels_last_top_k self \<le> int (length fp)
    then top_k_branch self fp else pad_and_top_k self fp) =
   (if channels_last_top_k self < 0 then Inl InvalidArgumentError
    else Inr (select_top_k (channels_last_top_k self) fp))"
proof (cases "channels_last_top_k self \<le> int (length fp)")
  case True
  then have "nat (channels_last_top_k self) - length fp = 0" by simp
  then show ?thesis using True
    by (simp add: top_k_branch_def gather_top_k select_top_k_def del: One_nat_def)
next
  case False
  then have "int (length (fp @ replicate (nat (channels_last_top_k self - int (length fp))) sentinel))
      = channels_last_top_k self" by simp
  moreover have "nat (channels_last_top_k self - int (length fp))
      = nat (channels_last_top_k self) - length fp" by simp
  ultimately show ?thesis using False
    by (simp add: pad_and_top_k_def pad_def gather_top_k select_top_k_def del: One_nat_def)
qed

section \<open>Rows of a frame\<close>



lemma compatible_sentinel [simp]: "compatible thr sentinel s" "compatible thr r sentinel"
  by (simp_all add: compatible_def)

lemma compatible_replicate: "sorted_wrt (compatible thr) (replicate n sentinel)"
  by (induction n) simp_all

lemma compatible_append_sentinels:
  "sorted_wrt (compatible thr) (xs @ replicate n sentinel) \<longleftrightarrow> sorted_wrt (compatible thr) xs"
  by (simp add: sorted_wrt_append compatible_replicate)




lemma set_select_top_k: "set (select_top_k k fp) \<subseteq> insert sentinel (set fp)"
proof -
  have "set (select_top_k k fp)
      \<subseteq> set (sort_key (\<lambda>r. - (r ! 1)) (fp @ replicate (nat k - length fp) sentinel))"
    unfolding select_top_k_def by (rule set_take_subset)
  then have "set (select_top_k k fp) \<subseteq> set (fp @ replicate (nat k - length fp) sentinel)"
    by (simp only: set_sort)
  then show ?thesis by auto
qed


lemma filter_predictions_eq:
  "filter_predictions self n batch_item =
     bind (filtered_predictions_of self n batch_item) (\<lambda>fp.
       if channels_last_top_k self < 0 then Inl InvalidArgumentError
       else Inr (select_top_k (channels_last_top_k self) fp))"
  by (simp add: filter_predictions_def top_k_stage)

lemma filtered_predictions_of_Inr_iff:
  "filtered_predictions_of self n batch_item = Inr fp \<longleftrightarrow>
     1 \<le> n \<and> (\<exists>blocks. list_all2 (\<lambda>c b. filter_single_class self batch_item c = Inr b) [1..<n] blocks
                 \<and> fp = concat blocks)"
  by (auto simp: filtered_predictions_of_def tf_range_def bind_Inr_iff map_fn_Inr_iff)

lemma detection_class:
  assumes "d \<in> set (detections self batch_item c)"
  shows "d ! 0 = real c \<and> channels_last_confidence_thresh self < d ! 1"
  using detection_row [OF assms] by auto

lemma detections_pairwise:
  "sorted_wrt (\<lambda>a b. \<not> iou_threshold self < IOU (corner_box a) (corner_box b))
     (detections self batch_item c)"
  unfolding detections_def Let_def sorted_wrt_map by (rule nms_indices_pairwise)

lemma detections_compatible:
  "sorted_wrt (compatible (iou_threshold self)) (detections self batch_item c)"
  by (rule sorted_wrt_mono_rel [OF _ detections_pairwise]) (auto simp: compatible_def)

lemma block_compatible:
  assumes "filter_single_class self batch_item c = Inr block"
  shows "sorted_wrt (compatible (iou_threshold self)) block"
proof -
  obtain k where "block = detections self batch_item c @ replicate k sentinel"
    using filter_single_class_Inr [OF assms] by blast
  then show ?thesis
    using detections_compatible [of self batch_item c]
    by (simp add: compatible_append_sentinels)
qed

lemma block_rows:
  assumes "filter_single_class self batch_item c = Inr block" and "r \<in> set block"
  shows "r = sentinel \<or> r \<in> set (detections self batch_item c)"
  using filter_single_class_Inr [OF assms(1)] assms(2) by auto

lemma blocks_compatible:
  assumes "list_all2 (\<lambda>c b. filter_single_class self batch_item c = Inr b) cs blocks"
    and "distinct cs"
  shows "sorted_wrt (compatible (iou_threshold self)) (concat blocks)
     \<and> (\<forall>r \<in> set (concat blocks). r = sentinel \<or> (\<exists>c \<in> set cs. r \<in> set (detections self batch_item c)))"
  using assms
proof (induction cs blocks rule: list_all2_induct)
  case Nil
  show ?case by simp
next
  case (Cons c cs b bs)
  have IH: "sorted_wrt (compatible (iou_threshold self)) (concat bs)"
    and rows: "\<forall>r \<in> set (concat bs). r = sentinel \<or> (\<exists>c \<in> set cs. r \<in> set (detections self batch_item c))"
    using Cons by auto
  have b: "sorted_wrt (compatible (iou_threshold self)) b"
    using Cons.hyps(1) by (rule block_compatible)
  have cross: "compatible (iou_threshold self) x y" if xb: "x \<in> set b" and yb: "y \<in> set (concat bs)" for x y
  proof -
    consider "x = sentinel" | "y = sentinel"
      | c' where "x \<in> set (detections self batch_item c)" "c' \<in> set cs"
          "y \<in> set (detections self batch_item c')"
      using block_rows [OF Cons.hyps(1) xb] rows yb by blast
    then show ?thesis
    proof cases
      case 3
      then have "x ! 0 = real c" "y ! 0 = real c'" "c \<noteq> c'"
        using detection_class Cons.prems by auto
      then show ?thesis by (simp add: compatible_def)
    qed simp_all
  qed
  have "\<forall>r \<in> set (concat (b # bs)). r = sentinel \<or>
      (\<exists>c \<in> set (c # cs). r \<in> set (detections self batch_item c))"
    using rows block_rows [OF Cons.hyps(1)] by auto
  then show ?case using IH b cross by (simp add: sorted_wrt_append)
qed

lemma frame_rows:
  assumes "filter_predictions self n batch_item = Inr frame" and "r \<in> set frame"
  shows "r = sentinel \<or> (\<exists>c \<in> {1..<n}. r \<in> set (detections self batch_item c))"
proof -
  obtain fp where fp: "filtered_predictions_of self n batch_item = Inr fp"
    and frame: "frame = select_top_k (channels_last_top_k self) fp"
    using assms(1) by (auto simp: filter_predictions_eq bind_Inr_iff split: if_splits)
  obtain blocks where
    "list_all2 (\<lambda>c b. filter_single_class self batch_item c = Inr b) [1..<n] blocks"
    "fp = concat blocks"
    using fp by (auto simp: filtered_predictions_of_Inr_iff)
  then have "\<forall>r \<in> set fp. r = sentinel \<or> (\<exists>c \<in> set [1..<n]. r \<in> set (detections self batch_item c))"
    using blocks_compatible [of self batch_item "[1..<n]" blocks] by simp
  then show ?thesis
    using assms(2) frame set_select_top_k [of "channels_last_top_k self" fp] by auto
qed


lemma call_Inr_iff:
  "call self y = Inr out \<longleftrightarrow>
     13 \<le> snd (snd (dims y)) \<and>
     list_all2 (\<lambda>img frame. filter_predictions self (snd (snd (dims y)) - 12)
                   (map (decode_row self) img) = Inr frame) (elems y) out"
proof (cases "dims y")
  case (fields b n d)
  show ?thesis
  proof (cases "13 \<le> d")
    case True
    then show ?thesis using fields
      by (simp add: call_def Let_def tf_range_def map_fn_Inr_iff list_all2_map1)
  next
    case False
    then show ?thesis using fields
      by (simp add: call_def Let_def tf_range_def)
  qed
qed

lemma call_frame:
  assumes "call self y = Inr out" and "frame \<in> set out"
  shows "\<exists>img \<in> set (elems y). filter_predictions self (snd (snd (dims y)) - 12)
                   (map (decode_row self) img) = Inr frame"
proof -
  obtain i where "i < length out" "out ! i = frame"
    using assms(2) by (auto simp: in_set_conv_nth)
  moreover have "list_all2 (\<lambda>img frame. filter_predictions self (snd (snd (dims y)) - 12)
                   (map (decode_row self) img) = Inr frame) (elems y) out"
    using assms(1) by (simp add: call_Inr_iff)
  ultimately have "i < length (elems y)"
    and "filter_predictions self (snd (snd (dims y)) - 12)
           (map (decode_row self) (elems y ! i)) = Inr frame"
    by (auto simp: list_all2_conv_all_nth)
  then show ?thesis using nth_mem by blast
qed

lemma call_frame_nth:
  assumes "call self y = Inr out" and "b < length out"
  shows "filter_predictions self (snd (snd (dims y)) - 12)
           (map (decode_row self) (elems y ! b)) = Inr (out ! b)"
    and "elems y ! b \<in> set (elems y)"
proof -
  have "list_all2 (\<lambda>img frame. filter_predictions self (snd (snd (dims y)) - 12)
                   (map (decode_row self) img) = Inr frame) (elems y) out"
    using assms(1) by (simp add: call_Inr_iff)
  then show "filter_predictions self (snd (snd (dims y)) - 12)
           (map (decode_row self) (elems y ! b)) = Inr (out ! b)"
    and "elems y ! b \<in> set (elems y)"
    using assms(2) by (auto simp: list_all2_conv_all_nth)
qed

section \<open>Concrete evaluation and further facts\<close>

lemmas eval_defs =
  call_def tf_range_def bind_def decode_row_def non_normalized_coords_def normalized_coords_def
  box_defs at_neg_def filter_predictions_def filtered_predictions_of_def filter_single_class_def
  single_class_of_def threshold_def boolean_mask_def perform_nms_def non_max_suppression_def
  gather_def pad_def sentinel_def pad_and_top_k_def top_k_branch_def top_k_indices_def
  descending_def no_confident_predictions_def corner_box_def IOU_def upt_rec Let_def
  eval_nat_numeral


lemma call_example2:
  "call example_layer example_input2 =
     Inr [[[1, 9 / 10, 8, 8, 12, 12], [1, 8 / 10, 28, 28, 32, 32], sentinel]]"
  by (simp add: example_layer_def example_input2_def eval_defs)


lemma decode_row_nth: "c < length r - 12 \<Longrightarrow> decode_row self r ! c = r ! c"
  by (simp add: decode_row_def nth_append)

lemma sentinel_conf [simp]: "sentinel ! 1 = 0"
  by (simp add: sentinel_def)

lemma no_candidates:
  assumes "\<forall>r \<in> set img. length r = d \<and> \<not> channels_last_confidence_thresh self < r ! c"
    and "c < d - 12"
  shows "detections self (map (decode_row self) img) c = []"
proof -
  have "threshold self (single_class_of (map (decode_row self) img) c) = []"
    using assms by (auto simp: threshold_filter single_class_of_def filter_empty_conv decode_row_nth)
  then show ?thesis by (rule detections_empty)
qed







lemma map_fn_total: "(\<And>x. x \<in> set xs \<Longrightarrow> f x = Inr (g x)) \<Longrightarrow> map_fn f xs = Inr (map g xs)"
  by (induction xs) simp_all

lemma length_class_block:
  "length (class_block self batch_item index) = nat (channels_last_nms_max_output_size self)"
  using length_detections [of self batch_item index] by (simp add: class_block_def)

lemma filtered_predictions_of_valid:
  assumes "1 \<le> channels_last_nms_max_output_size self"
    and "0 \<le> iou_threshold self" and "iou_threshold self \<le> 1" and "1 \<le> n"
  shows "filtered_predictions_of self n batch_item =
     Inr (concat (map (class_block self batch_item) [1..<n]))"
proof -
  have "map_fn (filter_single_class self batch_item) [1..<n]
      = Inr (map (class_block self batch_item) [1..<n])"
    by (rule map_fn_total) (simp add: filter_single_class_valid [OF assms(1,2,3)] class_block_def)
  then show ?thesis using assms(4)
    by (simp add: filtered_predictions_of_def tf_range_def)
qed

lemma length_concat_blocks:
  "length (concat (map (class_block self batch_item) cs))
     = length cs * nat (channels_last_nms_max_output_size self)"
  by (induction cs) (simp_all add: length_class_block)

lemma filter_predictions_valid:
  assumes "1 \<le> channels_last_nms_max_output_size self"
    and "0 \<le> iou_threshold self" and "iou_threshold self \<le> 1" and "1 \<le> n"
    and "0 \<le> channels_last_top_k self"
  shows "filter_predictions self n batch_item =
     Inr (select_top_k (channels_last_top_k self)
            (concat (map (class_block self batch_item) [1..<n])))"
  using assms(5)
  by (simp add: filter_predictions_eq filtered_predictions_of_valid [OF assms(1,2,3,4)])


lemma sentinel_length [simp]: "length sentinel = 6"
  by (simp add: sentinel_def)


lemma select_top_k_descending: "sorted_wrt (\<lambda>a b. b ! 1 \<le> a ! 1) (select_top_k k fp)"
proof -
  have "sorted (map (\<lambda>r. - (r ! 1)) (sort_key (\<lambda>r. - (r ! 1)) (fp @ replicate (nat k - length fp) sentinel)))"
    by (rule sorted_sort_key)
  then have "sorted_wrt (\<lambda>a b. b ! 1 \<le> a ! 1)
      (sort_key (\<lambda>r. - (r ! 1)) (fp @ replicate (nat k - length fp) sentinel))"
    by (simp only: sorted_map neg_le_iff_le)
  then show ?thesis unfolding select_top_k_def by (rule sorted_wrt_take)
qed











lemma call_example4:
  "call example_layer example_input4 = Inr [[sentinel, sentinel, sentinel]]"
  by (simp add: example_layer_def example_input4_def eval_defs)

lemma example_layer_valid:
  "1 \<le> channels_last_nms_max_output_size example_layer"
  "0 \<le> iou_threshold example_layer" "iou_threshold example_layer \<le> 1"
  "0 \<le> channels_last_top_k example_layer"
  "0 \<le> channels_last_confidence_thresh example_layer"
  by (simp_all add: example_layer_def)


section \<open>The intersection over union of the specification\<close>









section \<open>The claims\<close>

text \<open>
  C2. For every anchor record, laid out as the class scores followed by the four
  offsets, the four anchor values and the four variances, the decoded row is the
  class scores followed by the box of the specification's formula: centre
  \<open>dcx * vcx * w_a + cx_a\<close> and \<open>dcy * vcy * h_a + cy_a\<close>, width \<open>exp (dw * vw) * w_a\<close>,
  height \<open>exp (dh * vh) * h_a\<close>, corners at half the width and height from the centre,
  and, when the coordinates are normalised, x scaled by the image width and y by the
  image height, otherwise unscaled.
\<close>

theorem decode_row_formula:
  "decode_row self (scores @ [dcx, dcy, dw, dh, cx_a, cy_a, w_a, h_a, vcx, vcy, vw, vh]) =
     scores @
       (let cx = dcx * vcx * w_a + cx_a;
            cy = dcy * vcy * h_a + cy_a;
            w = exp (dw * vw) * w_a;
            h = exp (dh * vh) * h_a;
            xmin = cx - w / 2; ymin = cy - h / 2;
            xmax = cx + w / 2; ymax = cy + h / 2
        in if channels_last_normalize_coords self
           then [xmin * channels_last_img_width self, ymin * channels_last_img_height self,
                 xmax * channels_last_img_width self, ymax * channels_last_img_height self]
           else [xmin, ymin, xmax, ymax])
   \<and> decode_row self (scores @ [dcx, dcy, dw, dh, cx_a, cy_a, w_a, h_a, vcx, vcy, vw, vh]) =
     scores @ spec_decoded_box (channels_last_normalize_coords self)
                (channels_last_img_width self) (channels_last_img_height self)
                dcx dcy dw dh cx_a cy_a w_a h_a vcx vcy vw vh"
  by (simp add: decode_row_append spec_decoded_box_def)

theorem decode_row_formula_witness:
  "decode_row example_layer example_row = [1 / 10, 9 / 10, 8, 8, 12, 12]"
  using decode_row_formula [of example_layer "[1 / 10, 9 / 10]" 0 0 0 0 10 10 4 4
      "1 / 10" "1 / 10" "2 / 10" "2 / 10"]
  by (simp add: example_row_def example_layer_def)






text \<open>
  C9. With \<open>normalize_coords = False\<close> and both image dimensions \<open>None\<close>, the checks of
  lines 78 to 82 pass, and line 99 builds a float constant from \<open>None\<close>, which
  TensorFlow rejects: construction raises \<open>ValueError\<close>.
\<close>

theorem init_without_image_size_raises:
  "init ''tensorflow'' ct iou k nms ''centroids'' False None None = Inl ValueError"
  by (simp add: init_def constant_float_def)




text \<open>
  C3. Thresholding keeps exactly the rows whose confidence is strictly greater than
  \<open>confidence_thresh\<close>. In every output of the decode operation, a row with
  confidence above 0 has confidence above \<open>confidence_thresh\<close>; and when, in a
  well-shaped input, no box of an image has a score above \<open>confidence_thresh\<close> for
  any class from 1 to \<open>n_classes - 1\<close>, every row of that image's frame is the
  all-zero sentinel.
\<close>

theorem confidence_above_threshold:
  assumes "call self y = Inr out"
  shows "threshold self single_class =
           filter (\<lambda>r. channels_last_confidence_thresh self < r ! 1) single_class
    \<and> (\<forall>frame \<in> set out. \<forall>row \<in> set frame.
          0 < row ! 1 \<longrightarrow> channels_last_confidence_thresh self < row ! 1)
    \<and> (\<forall>b < length out.
          well_shaped y \<and>
          (\<forall>r \<in> set (elems y ! b). \<forall>c \<in> {1..<snd (snd (dims y)) - 12}.
              \<not> channels_last_confidence_thresh self < r ! c)
          \<longrightarrow> (\<forall>row \<in> set (out ! b). row = sentinel))"
proof -
  let ?n = "snd (snd (dims y)) - 12"
  have a: "\<forall>frame \<in> set out. \<forall>row \<in> set frame.
          0 < row ! 1 \<longrightarrow> channels_last_confidence_thresh self < row ! 1"
  proof (intro ballI impI)
    fix frame row
    assume fr: "frame \<in> set out" and row: "row \<in> set frame" and pos: "0 < row ! 1"
    obtain img where fp: "filter_predictions self ?n (map (decode_row self) img) = Inr frame"
      using call_frame [OF assms fr] by blast
    have "row \<noteq> sentinel" using pos by (auto simp: sentinel_def)
    then obtain c where "row \<in> set (detections self (map (decode_row self) img) c)"
      using frame_rows [OF fp row] by blast
    then show "channels_last_confidence_thresh self < row ! 1"
      by (simp add: detection_class del: One_nat_def)
  qed
  have b: "\<forall>row \<in> set (out ! b). row = sentinel"
    if b: "b < length out" and ws: "well_shaped y"
      and low: "\<forall>r \<in> set (elems y ! b). \<forall>c \<in> {1..<?n}.
            \<not> channels_last_confidence_thresh self < r ! c"
    for b
  proof (intro ballI)
    fix row
    assume row: "row \<in> set (out ! b)"
    have fp: "filter_predictions self ?n (map (decode_row self) (elems y ! b)) = Inr (out ! b)"
      and img: "elems y ! b \<in> set (elems y)"
      using call_frame_nth [OF assms b] by simp_all
    have "detections self (map (decode_row self) (elems y ! b)) c = []"
      if c: "c \<in> {1..<?n}" for c
    proof (rule no_candidates [where d = "snd (snd (dims y))"])
      show "\<forall>r \<in> set (elems y ! b). length r = snd (snd (dims y))
          \<and> \<not> channels_last_confidence_thresh self < r ! c"
        using ws low c img by (auto simp: well_shaped_def split: prod.splits)
      show "c < snd (snd (dims y)) - 12" using c by simp
    qed
    then show "row = sentinel" using frame_rows [OF fp row] by auto
  qed
  show ?thesis using a b by (simp add: threshold_filter del: One_nat_def)
qed

theorem confidence_above_threshold_witness:
  "call example_layer example_input2 =
     Inr [[[1, 9 / 10, 8, 8, 12, 12], [1, 8 / 10, 28, 28, 32, 32], sentinel]]
   \<and> channels_last_confidence_thresh example_layer < [1, 8 / 10, 28, 28, 32, 32] ! 1
   \<and> call example_layer example_input4 = Inr [[sentinel, sentinel, sentinel]]
   \<and> well_shaped example_input4
   \<and> \<not> channels_last_confidence_thresh example_layer < 1 / 200
   \<and> [[sentinel, sentinel, sentinel]] ! 0 ! 1 = sentinel"
proof -
  have "\<forall>frame \<in> set [[[1, 9 / 10, 8, 8, 12, 12], [1, 8 / 10, 28, 28, 32, 32], sentinel]].
        \<forall>row \<in> set frame.
          0 < row ! 1 \<longrightarrow> channels_last_confidence_thresh example_layer < row ! 1"
    using confidence_above_threshold [OF call_example2, of "[]"] by blast
  then have hi: "channels_last_confidence_thresh example_layer < [1, 8 / 10, 28, 28, 32, 32] ! 1"
    by simp
  have ws: "well_shaped example_input4"
    by (simp add: well_shaped_def example_input4_def)
  have thr: "\<not> channels_last_confidence_thresh example_layer < 1 / 200"
    by (simp add: example_layer_def)
  have low: "\<forall>r \<in> set (elems example_input4 ! 0).
      \<forall>c \<in> {1..<snd (snd (dims example_input4)) - 12}.
        \<not> channels_last_confidence_thresh example_layer < r ! c"
    using thr by (simp add: example_input4_def)
  have "\<forall>row \<in> set ([[sentinel, sentinel, sentinel]] ! 0). row = sentinel"
    using confidence_above_threshold [OF call_example4, of "[]"] ws low by simp
  then have "[[sentinel, sentinel, sentinel]] ! 0 ! 1 = sentinel"
    by simp
  then show ?thesis using hi call_example2 call_example4 ws thr by blast
qed








text \<open>
  C6. For each image, with a configuration in the documented domains, the top-k stage
  takes the concatenation of the \<open>n_classes - 1\<close> blocks, pads it with sentinels up to
  \<open>top_k\<close> rows when it has fewer, and returns the first \<open>top_k\<close> rows of the stable
  sort by descending confidence: exactly \<open>top_k\<close> rows, confidences non-increasing by
  row index, and every row after a zero-confidence row is a sentinel.
\<close>

theorem top_k_stage_sorted:
  assumes "1 \<le> channels_last_nms_max_output_size self"
    and "0 \<le> iou_threshold self" and "iou_threshold self \<le> 1"
    and "1 \<le> n_classes" and "0 \<le> channels_last_top_k self"
    and "0 \<le> channels_last_confidence_thresh self"
  shows "\<exists>fp frame.
      filtered_predictions_of self n_classes batch_item = Inr fp
    \<and> length fp = (n_classes - 1) * nat (channels_last_nms_max_output_size self)
    \<and> filter_predictions self n_classes batch_item = Inr frame
    \<and> frame = take (nat (channels_last_top_k self))
                (sort_key (\<lambda>r. - (r ! 1))
                   (fp @ replicate (nat (channels_last_top_k self) - length fp) sentinel))
    \<and> length frame = nat (channels_last_top_k self)
    \<and> (\<forall>i j. i < j \<and> j < length frame \<longrightarrow> frame ! j ! 1 \<le> frame ! i ! 1)
    \<and> (\<forall>i j. i < j \<and> j < length frame \<and> frame ! i ! 1 = 0 \<longrightarrow> frame ! j = sentinel)"
proof -
  let ?fp = "concat (map (class_block self batch_item) [1..<n_classes])"
  let ?frame = "select_top_k (channels_last_top_k self) ?fp"
  have fp: "filtered_predictions_of self n_classes batch_item = Inr ?fp"
    by (rule filtered_predictions_of_valid [OF assms(1,2,3,4)])
  have len: "length ?fp = (n_classes - 1) * nat (channels_last_nms_max_output_size self)"
    by (simp add: length_concat_blocks)
  have fr: "filter_predictions self n_classes batch_item = Inr ?frame"
    by (rule filter_predictions_valid [OF assms(1,2,3,4,5)])
  have desc: "\<forall>i j. i < j \<and> j < length ?frame \<longrightarrow> ?frame ! j ! 1 \<le> ?frame ! i ! 1"
    using select_top_k_descending [of "channels_last_top_k self" ?fp]
    by (simp add: sorted_wrt_iff_nth_less del: One_nat_def)
  have last: "\<forall>i j. i < j \<and> j < length ?frame \<and> ?frame ! i ! 1 = 0 \<longrightarrow> ?frame ! j = sentinel"
  proof (intro allI impI)
    fix i j
    assume h: "i < j \<and> j < length ?frame \<and> ?frame ! i ! 1 = 0"
    then have "?frame ! j ! 1 \<le> 0" using desc by (metis (no_types, lifting))
    moreover have "?frame ! j \<in> set ?frame" using h by simp
    then have "?frame ! j = sentinel \<or> channels_last_confidence_thresh self < ?frame ! j ! 1"
      using frame_rows [OF fr] detection_class by blast
    ultimately show "?frame ! j = sentinel" using assms(6) by auto
  qed
  show ?thesis
    using fp len fr desc last
    by (intro exI [of _ ?fp] exI [of _ ?frame] conjI)
       (simp_all add: select_top_k_def del: One_nat_def)
qed


theorem top_k_stage_sorted_witness:
  "\<exists>fp frame.
      filtered_predictions_of example_layer 2 (map (decode_row example_layer) [example_row]) = Inr fp
    \<and> length fp = (2 - 1) * nat (channels_last_nms_max_output_size example_layer)
    \<and> filter_predictions example_layer 2 (map (decode_row example_layer) [example_row]) = Inr frame
    \<and> frame = take (nat (channels_last_top_k example_layer))
                (sort_key (\<lambda>r. - (r ! 1))
                   (fp @ replicate (nat (channels_last_top_k example_layer) - length fp) sentinel))
    \<and> length frame = nat (channels_last_top_k example_layer)
    \<and> (\<forall>i j. i < j \<and> j < length frame \<longrightarrow> frame ! j ! 1 \<le> frame ! i ! 1)
    \<and> (\<forall>i j. i < j \<and> j < length frame \<and> frame ! i ! 1 = 0 \<longrightarrow> frame ! j = sentinel)"
proof -
  have n: "1 \<le> (2::nat)" by simp
  show ?thesis by (rule top_k_stage_sorted [OF example_layer_valid(1,2,3) n example_layer_valid(4,5)])
qed





end
